theory Spec2Isabelle
  imports Main
begin

section \<open>Configuration (roverUI.py, lines 30-46)\<close>

record CameraConfig =
  name :: string
  source_url :: string
  source_port :: int
  broadcast_port :: int
  camera_id :: string

definition mk_config :: "string \<Rightarrow> string \<Rightarrow> int \<Rightarrow> int \<Rightarrow> string \<Rightarrow> CameraConfig" where
  "mk_config n u sp bp c =
     \<lparr>name = n, source_url = u, source_port = sp, broadcast_port = bp, camera_id = c\<rparr>"

definition CAMERA_CONFIGS :: "CameraConfig list" where
  "CAMERA_CONFIGS =
     [mk_config ''Front View'' ''ws://192.168.0.5'' 8765 9001 ''front_view'',
      mk_config ''Rear View'' ''ws://192.168.0.5'' 8766 9002 ''rear_view'',
      mk_config ''Top View'' ''ws://192.168.0.5'' 8767 9003 ''top_view'',
      mk_config ''Arm Camera'' ''ws://192.168.0.5'' 8768 9004 ''arm_camera'',
      mk_config ''ZED RGB'' ''ws://192.168.0.5'' 8769 9005 ''zed_rgb'',
      mk_config ''ZED Depth'' ''ws://192.168.0.5'' 8770 9006 ''zed_depth'',
      mk_config ''Extra Camera'' ''ws://192.168.0.5'' 8771 9007 ''extra_camera'']"

text \<open>The keys every dictionary of the frame buffer is created with.\<close>

definition configured_ids :: "string list" where
  "configured_ids = map camera_id CAMERA_CONFIGS"

section \<open>Python values and exceptions\<close>

text \<open>
  The exceptions the relay can meet. All of them derive from \<open>Exception\<close>, so a bare
  \<open>except Exception\<close> catches each one; a handler naming classes catches only those.
\<close>

datatype py_exc =
    JSONDecodeError
  | KeyError
  | TypeError
  | BinasciiError
  | UnicodeDecodeError
  | Cv2Error
  | TimeoutError
  | ConnectionClosed
  | ConnectionRefusedError
  | OSError
  | InvalidHandshake

text \<open>
  \<open>bytes\<close> is a list of bytes. A \<open>str\<close> is represented by its UTF-8 encoding, so
  \<open>str.encode()\<close> is the identity on the representation and \<open>bytes.decode('utf-8')\<close>
  returns the same bytes as a \<open>str\<close> when they are well-formed UTF-8 and raises
  \<open>UnicodeDecodeError\<close> otherwise. Well-formed means: every character is one byte
  \<open>00..7F\<close>, or a lead byte \<open>C2..DF\<close>, \<open>E0..EF\<close> or \<open>F0..F4\<close> followed by one, two or
  three continuation bytes \<open>80..BF\<close>, where the first continuation byte is narrowed
  after \<open>E0\<close> (\<open>A0..BF\<close>), \<open>ED\<close> (\<open>80..9F\<close>), \<open>F0\<close> (\<open>90..BF\<close>) and \<open>F4\<close> (\<open>80..8F\<close>):
  no overlong forms, no surrogates, nothing above \<open>U+10FFFF\<close>. A \<open>str\<close> holding a
  lone surrogate has no UTF-8 encoding and is not represented; the relay builds its
  strings from base64 text. A clock reading (\<open>datetime\<close>) is an opaque number.
\<close>

type_synonym bytes = string
type_synonym datetime = nat

datatype py_payload = PyStr string | PyBytes bytes

fun str_encode :: "string \<Rightarrow> bytes" where
  "str_encode s = s"

definition byte_in :: "nat \<Rightarrow> nat \<Rightarrow> char \<Rightarrow> bool" where
  "byte_in lo hi c = (lo \<le> of_char c \<and> (of_char c :: nat) \<le> hi)"

fun utf8_valid :: "bytes \<Rightarrow> bool" where
  "utf8_valid [] = True"
| "utf8_valid (c # cs) =
     (if byte_in 0x00 0x7F c then utf8_valid cs
      else if byte_in 0xC2 0xDF c then
        (case cs of
           c1 # r \<Rightarrow> byte_in 0x80 0xBF c1 \<and> utf8_valid r
         | _ \<Rightarrow> False)
      else if byte_in 0xE0 0xEF c then
        (case cs of
           c1 # c2 # r \<Rightarrow>
             byte_in (if c = CHR 0xE0 then 0xA0 else 0x80)
                     (if c = CHR 0xED then 0x9F else 0xBF) c1 \<and>
             byte_in 0x80 0xBF c2 \<and> utf8_valid r
         | _ \<Rightarrow> False)
      else if byte_in 0xF0 0xF4 c then
        (case cs of
           c1 # c2 # c3 # r \<Rightarrow>
             byte_in (if c = CHR 0xF0 then 0x90 else 0x80)
                     (if c = CHR 0xF4 then 0x8F else 0xBF) c1 \<and>
             byte_in 0x80 0xBF c2 \<and> byte_in 0x80 0xBF c3 \<and> utf8_valid r
         | _ \<Rightarrow> False)
      else False)"

definition bytes_decode :: "bytes \<Rightarrow> py_exc + string" where
  "bytes_decode bs = (if utf8_valid bs then Inr bs else Inl UnicodeDecodeError)"

section \<open>Frame buffer (class CameraFrameBuffer, lines 53-87)\<close>

record CameraFrameBuffer =
  frames :: "string \<rightharpoonup> bytes option"
  timestamps :: "string \<rightharpoonup> datetime option"
  frame_counts :: "string \<rightharpoonup> int"
  connection_status :: "string \<rightharpoonup> bool"

text \<open>\<open>__init__\<close>: one entry per configured camera in each dictionary.\<close>

definition init_buffer :: CameraFrameBuffer where
  "init_buffer =
     \<lparr>frames = map_of (map (\<lambda>cfg. (camera_id cfg, None)) CAMERA_CONFIGS),
      timestamps = map_of (map (\<lambda>cfg. (camera_id cfg, None)) CAMERA_CONFIGS),
      frame_counts = map_of (map (\<lambda>cfg. (camera_id cfg, 0)) CAMERA_CONFIGS),
      connection_status = map_of (map (\<lambda>cfg. (camera_id cfg, False)) CAMERA_CONFIGS)\<rparr>"

text \<open>
  \<open>set_frame\<close> runs three statements in order. The third one reads
  \<open>frame_counts[camera_id]\<close> before writing it and raises \<open>KeyError\<close> when the key is
  missing; the two writes before it have happened by then. The result is the exception
  (or normal return) together with the buffer as the call leaves it. \<open>now\<close> is what
  \<open>datetime.now()\<close> returns during the call.
\<close>

definition set_frame ::
  "string \<Rightarrow> py_payload \<Rightarrow> datetime option \<Rightarrow> datetime \<Rightarrow> CameraFrameBuffer
     \<Rightarrow> (py_exc + unit) \<times> CameraFrameBuffer" where
  "set_frame cid frame_base64 timestamp now b =
     (let b1 = b\<lparr>frames := (frames b)(cid \<mapsto>
                   Some (case frame_base64 of PyStr s \<Rightarrow> str_encode s | PyBytes bs \<Rightarrow> bs))\<rparr>;
          b2 = b1\<lparr>timestamps := (timestamps b1)(cid \<mapsto>
                   Some (case timestamp of None \<Rightarrow> now | Some t \<Rightarrow> t))\<rparr>
      in case frame_counts b2 cid of
           None \<Rightarrow> (Inl KeyError, b2)
         | Some n \<Rightarrow> (Inr (), b2\<lparr>frame_counts := (frame_counts b2)(cid \<mapsto> n + 1)\<rparr>))"

text \<open>\<open>dict.get\<close>: a missing key and a stored \<open>None\<close> both give \<open>None\<close>.\<close>

definition get_frame :: "CameraFrameBuffer \<Rightarrow> string \<Rightarrow> bytes option" where
  "get_frame b cid = (case frames b cid of None \<Rightarrow> None | Some v \<Rightarrow> v)"

definition set_connection_status :: "string \<Rightarrow> bool \<Rightarrow> CameraFrameBuffer \<Rightarrow> CameraFrameBuffer" where
  "set_connection_status cid connected b =
     b\<lparr>connection_status := (connection_status b)(cid \<mapsto> connected)\<rparr>"

text \<open>What a payload is stored as.\<close>

fun stored_bytes :: "py_payload \<Rightarrow> bytes" where
  "stored_bytes (PyStr s) = str_encode s"
| "stored_bytes (PyBytes bs) = bs"

text \<open>
  A caller's sequence of calls on the buffer. A \<open>set_frame\<close> that raises leaves its
  partial writes behind, and the next call works on that buffer.
\<close>

datatype buffer_op =
    SetFrame string py_payload "datetime option" datetime
  | SetConnected string bool

fun apply_op :: "CameraFrameBuffer \<Rightarrow> buffer_op \<Rightarrow> CameraFrameBuffer" where
  "apply_op b (SetFrame cid p ts now) = snd (set_frame cid p ts now b)"
| "apply_op b (SetConnected cid c) = set_connection_status cid c b"

definition apply_ops :: "CameraFrameBuffer \<Rightarrow> buffer_op list \<Rightarrow> CameraFrameBuffer" where
  "apply_ops b ops = foldl apply_op b ops"

text \<open>
  The payload of the last \<open>SetFrame\<close> for a camera in a sequence of calls, \<open>None\<close> when
  there is none: the meaning of latest-wins.
\<close>

fun latest_payload :: "string \<Rightarrow> buffer_op list \<Rightarrow> bytes option" where
  "latest_payload cid [] = None"
| "latest_payload cid (SetFrame c p ts now # ops) =
     (case latest_payload cid ops of
        Some v \<Rightarrow> Some v
      | None \<Rightarrow> if c = cid then Some (stored_bytes p) else None)"
| "latest_payload cid (SetConnected c s # ops) = latest_payload cid ops"

section \<open>Library calls\<close>

text \<open>A decoded JSON text, as \<open>json.loads\<close> returns it and \<open>json.dumps\<close> takes it.\<close>

datatype json =
    JNull
  | JBool bool
  | JNum int
  | JStr string
  | JArr "json list"
  | JObj "(string \<times> json) list"

text \<open>
  \<open>message['image']\<close>: a dictionary without the key raises \<open>KeyError\<close>; a list, a
  string, a number, a boolean or \<open>None\<close> subscripted with a string raises
  \<open>TypeError\<close>.
\<close>

fun getitem :: "json \<Rightarrow> string \<Rightarrow> py_exc + json" where
  "getitem (JObj kvs) k = (case map_of kvs k of None \<Rightarrow> Inl KeyError | Some v \<Rightarrow> Inr v)"
| "getitem JNull k = Inl TypeError"
| "getitem (JBool v) k = Inl TypeError"
| "getitem (JNum v) k = Inl TypeError"
| "getitem (JStr v) k = Inl TypeError"
| "getitem (JArr v) k = Inl TypeError"

text \<open>
  The functions of \<open>json\<close>, \<open>base64\<close> and \<open>cv2\<close> the relay calls are parameters of
  the model: each returns its value or the exception it raises. \<open>imdecode\<close> returns
  \<open>None\<close> for bytes that are no image; \<open>imencode\<close> returns the pair \<open>(ret, buffer)\<close>.
\<close>

record 'img py_libs =
  json_loads :: "string \<Rightarrow> py_exc + json"
  b64decode :: "string \<Rightarrow> py_exc + bytes"
  imdecode :: "bytes \<Rightarrow> py_exc + 'img option"
  imencode :: "'img \<Rightarrow> py_exc + bool \<times> bytes"
  b64encode :: "bytes \<Rightarrow> string"

text \<open>\<open>base64.b64decode\<close> applied to a JSON value: anything but a string is a \<open>TypeError\<close>.\<close>

fun base64_b64decode :: "'img py_libs \<Rightarrow> json \<Rightarrow> py_exc + bytes" where
  "base64_b64decode L (JStr s) = b64decode L s"
| "base64_b64decode L JNull = Inl TypeError"
| "base64_b64decode L (JBool v) = Inl TypeError"
| "base64_b64decode L (JNum v) = Inl TypeError"
| "base64_b64decode L (JArr v) = Inl TypeError"
| "base64_b64decode L (JObj v) = Inl TypeError"

section \<open>Ingest connector (receive_camera_feed, lines 93-165)\<close>

text \<open>Lines 116-117, the body of the first inner \<open>try\<close>.\<close>

definition decode_message :: "'img py_libs \<Rightarrow> string \<Rightarrow> py_exc + bytes" where
  "decode_message L data =
     (case json_loads L data of
        Inl e \<Rightarrow> Inl e
      | Inr message \<Rightarrow>
          (case getitem message ''image'' of
             Inl e \<Rightarrow> Inl e
           | Inr v \<Rightarrow> base64_b64decode L v))"

text \<open>
  Lines 123-138, the body of the second inner \<open>try\<close>: the exception it ends with, if
  any, and the buffer. \<open>frame is None\<close> and a false \<open>ret\<close> leave the buffer alone.
\<close>

definition process_frame ::
  "'img py_libs \<Rightarrow> CameraConfig \<Rightarrow> datetime \<Rightarrow> bytes \<Rightarrow> CameraFrameBuffer
     \<Rightarrow> (py_exc + unit) \<times> CameraFrameBuffer" where
  "process_frame L config now jpg_bytes b =
     (case imdecode L jpg_bytes of
        Inl e \<Rightarrow> (Inl e, b)
      | Inr None \<Rightarrow> (Inr (), b)
      | Inr (Some frame) \<Rightarrow>
          (case imencode L frame of
             Inl e \<Rightarrow> (Inl e, b)
           | Inr (ret, buffer) \<Rightarrow>
               if ret
               then set_frame (camera_id config) (PyStr (b64encode L buffer)) None now b
               else (Inr (), b)))"

text \<open>
  One pass of the inner loop on a received message (lines 115-141). The first handler
  names \<open>JSONDecodeError\<close> and \<open>KeyError\<close> only; any other exception of lines 116-117
  reaches the \<open>except Exception\<close> of line 146, which leaves the loop. The second
  \<open>try\<close> swallows every exception and the loop goes on.
\<close>

datatype loop_ctl = Continue | Break

definition on_message ::
  "'img py_libs \<Rightarrow> CameraConfig \<Rightarrow> datetime \<Rightarrow> string \<Rightarrow> CameraFrameBuffer
     \<Rightarrow> loop_ctl \<times> CameraFrameBuffer" where
  "on_message L config now data b =
     (case decode_message L data of
        Inl e \<Rightarrow>
          if e = JSONDecodeError \<or> e = KeyError then (Continue, b) else (Break, b)
      | Inr jpg_bytes \<Rightarrow> (Continue, snd (process_frame L config now jpg_bytes b)))"

text \<open>
  The coroutine between two awaits. \<open>Connecting\<close>: \<open>websockets.connect\<close> is pending.
  \<open>Streaming\<close>: \<open>websocket.recv()\<close> is pending under its 30 s deadline. \<open>Failed\<close>: the
  outer loop was left by \<open>break\<close> and the coroutine has returned. The trace lists, in
  program order, the connection attempts issued, the sleeps and the exits of the
  \<open>async with\<close> block (which close the connection).
\<close>

datatype phase = Connecting | Streaming | Failed

datatype action = ConnectAttempt | Sleep nat | CloseConnection

record connector =
  phase :: phase
  retry_count :: nat
  trace :: "action list"

text \<open>What the pending await ends with. A received message comes with the clock reading
  \<open>datetime.now()\<close> gives while it is processed.\<close>

datatype event =
    ConnectOk
  | ConnectRaises py_exc
  | RecvRaises py_exc
  | RecvData string datetime

definition init_connector :: connector where
  "init_connector = \<lparr>phase = Connecting, retry_count = 0, trace = [ConnectAttempt]\<rparr>"

text \<open>The two handlers of the outer \<open>try\<close> (lines 150-165).\<close>

definition outer_handler ::
  "CameraConfig \<Rightarrow> int \<Rightarrow> py_exc \<Rightarrow> connector \<times> CameraFrameBuffer
     \<Rightarrow> connector \<times> CameraFrameBuffer" where
  "outer_handler config max_retries e cb =
     (let c = fst cb;
          b = set_connection_status (camera_id config) False (snd cb)
      in if e = ConnectionClosed \<or> e = ConnectionRefusedError
         then (let r = retry_count c + 1
               in if int r > max_retries
                  then (c\<lparr>phase := Failed, retry_count := r\<rparr>, b)
                  else (c\<lparr>retry_count := r,
                          trace := trace c @ [Sleep (min (2 ^ r) 30), ConnectAttempt]\<rparr>, b))
         else (c\<lparr>trace := trace c @ [Sleep 5, ConnectAttempt]\<rparr>, b))"

text \<open>
  One await of the coroutine. Both \<open>except\<close> clauses of the inner loop (lines 143-148)
  only \<open>break\<close>: the \<open>async with\<close> block is left normally and the outer loop starts
  its next pass at once. \<open>None\<close>: the event is not what the coroutine is waiting for.
\<close>

definition receive_camera_feed_step ::
  "'img py_libs \<Rightarrow> CameraConfig \<Rightarrow> int \<Rightarrow> connector \<times> CameraFrameBuffer \<Rightarrow> event
     \<Rightarrow> (connector \<times> CameraFrameBuffer) option" where
  "receive_camera_feed_step L config max_retries cb ev =
     (let c = fst cb; b = snd cb;
          reconnect = c\<lparr>phase := Connecting,
                        trace := trace c @ [CloseConnection, ConnectAttempt]\<rparr>
      in case phase c of
           Connecting \<Rightarrow>
             (case ev of
                ConnectOk \<Rightarrow>
                  Some (c\<lparr>phase := Streaming, retry_count := 0\<rparr>,
                        set_connection_status (camera_id config) True b)
              | ConnectRaises e \<Rightarrow> Some (outer_handler config max_retries e cb)
              | RecvRaises e \<Rightarrow> None
              | RecvData data now \<Rightarrow> None)
         | Streaming \<Rightarrow>
             (case ev of
                ConnectOk \<Rightarrow> None
              | ConnectRaises e \<Rightarrow> None
              | RecvRaises e \<Rightarrow> Some (reconnect, b)
              | RecvData data now \<Rightarrow>
                  (case on_message L config now data b of
                     (Continue, b') \<Rightarrow> Some (c, b')
                   | (Break, b') \<Rightarrow> Some (reconnect, b')))
         | Failed \<Rightarrow> None)"

fun receive_camera_feed ::
  "'img py_libs \<Rightarrow> CameraConfig \<Rightarrow> int \<Rightarrow> connector \<times> CameraFrameBuffer \<Rightarrow> event list
     \<Rightarrow> (connector \<times> CameraFrameBuffer) option" where
  "receive_camera_feed L config max_retries cb [] = Some cb"
| "receive_camera_feed L config max_retries cb (ev # evs) =
     (case receive_camera_feed_step L config max_retries cb ev of
        None \<Rightarrow> None
      | Some cb' \<Rightarrow> receive_camera_feed L config max_retries cb' evs)"

text \<open>The sleeps of a trace, and the number of connection attempts in it.\<close>

fun waits :: "action list \<Rightarrow> nat list" where
  "waits [] = []"
| "waits (Sleep n # as) = n # waits as"
| "waits (ConnectAttempt # as) = waits as"
| "waits (CloseConnection # as) = waits as"

definition attempts :: "action list \<Rightarrow> nat" where
  "attempts as = length (filter (\<lambda>a. a = ConnectAttempt) as)"

text \<open>
  A connection attempt that fails with one of the two exceptions the first outer handler
  names, and the trace of \<open>n\<close> such failures in a row from the start.
\<close>

definition connect_failure :: "event \<Rightarrow> bool" where
  "connect_failure ev =
     (ev = ConnectRaises ConnectionClosed \<or> ev = ConnectRaises ConnectionRefusedError)"

definition backoff_trace :: "nat \<Rightarrow> action list" where
  "backoff_trace n =
     ConnectAttempt # concat (map (\<lambda>k. [Sleep (min (2 ^ k) 30), ConnectAttempt]) [1..<n + 1])"

section \<open>The process (main, lines 630-663)\<close>

text \<open>
  \<open>main\<close> starts one \<open>receive_camera_feed(config)\<close> per configured camera, each with the
  default \<open>max_retries = 5\<close>, all on the one global \<open>frame_buffer\<close>. The tasks
  interleave at their awaits: an event names the camera whose await it ends.
\<close>

definition DEFAULT_MAX_RETRIES :: int where
  "DEFAULT_MAX_RETRIES = 5"

record relay =
  connectors :: "string \<Rightarrow> connector"
  frame_buffer :: CameraFrameBuffer

definition init_relay :: relay where
  "init_relay = \<lparr>connectors = (\<lambda>cid. init_connector), frame_buffer = init_buffer\<rparr>"

definition relay_step ::
  "'img py_libs \<Rightarrow> relay \<Rightarrow> string \<times> event \<Rightarrow> relay option" where
  "relay_step L s tev =
     (case find (\<lambda>config. camera_id config = fst tev) CAMERA_CONFIGS of
        None \<Rightarrow> None
      | Some config \<Rightarrow>
          (case receive_camera_feed_step L config DEFAULT_MAX_RETRIES
                  (connectors s (fst tev), frame_buffer s) (snd tev) of
             None \<Rightarrow> None
           | Some cb \<Rightarrow>
               Some (s\<lparr>connectors := (connectors s)(fst tev := fst cb),
                        frame_buffer := snd cb\<rparr>)))"

fun relay_run ::
  "'img py_libs \<Rightarrow> relay \<Rightarrow> (string \<times> event) list \<Rightarrow> relay option" where
  "relay_run L s [] = Some s"
| "relay_run L s (tev # tevs) =
     (case relay_step L s tev of None \<Rightarrow> None | Some s' \<Rightarrow> relay_run L s' tevs)"

text \<open>
  A received message is an accepted frame when it parses, its image decodes and the
  decoded image re-encodes (\<open>ret\<close> true).
\<close>

definition frame_accepted :: "'img py_libs \<Rightarrow> string \<Rightarrow> bool" where
  "frame_accepted L data =
     (case decode_message L data of
        Inl e \<Rightarrow> False
      | Inr jpg_bytes \<Rightarrow>
          (case imdecode L jpg_bytes of
             Inl e \<Rightarrow> False
           | Inr None \<Rightarrow> False
           | Inr (Some frame) \<Rightarrow>
               (case imencode L frame of Inl e \<Rightarrow> False | Inr rb \<Rightarrow> fst rb)))"

fun accepted_event :: "'img py_libs \<Rightarrow> event \<Rightarrow> bool" where
  "accepted_event L (RecvData data now) = frame_accepted L data"
| "accepted_event L ConnectOk = False"
| "accepted_event L (ConnectRaises e) = False"
| "accepted_event L (RecvRaises e) = False"

definition accepted_count :: "'img py_libs \<Rightarrow> string \<Rightarrow> (string \<times> event) list \<Rightarrow> nat" where
  "accepted_count L cid tevs =
     length (filter (\<lambda>tev. fst tev = cid \<and> accepted_event L (snd tev)) tevs)"

section \<open>Broadcast server (broadcast_camera_feed, lines 167-212)\<close>

text \<open>
  One pass of the broadcast loop (lines 176-205): the dictionary it hands to
  \<open>json.dumps\<close> and sends, keys in the order written, or the exception it raises
  while building it. \<open>if frame:\<close> is false for \<open>None\<close> and for empty bytes. A stored
  frame is bytes, and \<open>frame.decode('utf-8')\<close> (line 184) raises on bytes that are no
  UTF-8; that exception is caught at line 211, so nothing is sent and the handler ends.
  \<open>now_iso\<close> is \<open>datetime.now().isoformat()\<close>. The loop reads the buffer anew in every
  pass; a failed send ends the handler as well.
\<close>

definition broadcast_camera_feed ::
  "CameraConfig \<Rightarrow> string \<Rightarrow> CameraFrameBuffer \<Rightarrow> py_exc + json" where
  "broadcast_camera_feed config now_iso b =
     (let frame = get_frame b (camera_id config);
          status = (case connection_status b (camera_id config) of
                      None \<Rightarrow> False | Some v \<Rightarrow> v);
          placeholder =
            JObj [(''camera_id'', JStr (camera_id config)),
                  (''camera_name'', JStr (name config)),
                  (''timestamp'', JStr now_iso),
                  (''image'', JNull),
                  (''is_grayscale'', JBool False),
                  (''source_connected'', JBool status),
                  (''message'', JStr ''Waiting for first frame...'')]
      in case frame of
           None \<Rightarrow> Inr placeholder
         | Some bs \<Rightarrow>
             if bs \<noteq> []
             then (case bytes_decode bs of
                     Inl e \<Rightarrow> Inl e
                   | Inr decoded \<Rightarrow>
                       Inr (JObj [(''camera_id'', JStr (camera_id config)),
                                  (''camera_name'', JStr (name config)),
                                  (''timestamp'', JStr now_iso),
                                  (''image'', JStr decoded),
                                  (''is_grayscale'', JBool False),
                                  (''source_connected'', JBool status)]))
             else Inr placeholder)"

text \<open>Reading a message: its keys, and the value under a key.\<close>

fun json_keys :: "json \<Rightarrow> string list" where
  "json_keys (JObj kvs) = map fst kvs"
| "json_keys JNull = []"
| "json_keys (JBool v) = []"
| "json_keys (JNum v) = []"
| "json_keys (JStr v) = []"
| "json_keys (JArr v) = []"

fun json_field :: "json \<Rightarrow> string \<Rightarrow> json option" where
  "json_field (JObj kvs) k = map_of kvs k"
| "json_field JNull k = None"
| "json_field (JBool v) k = None"
| "json_field (JNum v) k = None"
| "json_field (JStr v) k = None"
| "json_field (JArr v) k = None"

fun is_JStr :: "json option \<Rightarrow> bool" where
  "is_JStr (Some (JStr v)) = True"
| "is_JStr v = False"

fun is_JBool :: "json option \<Rightarrow> bool" where
  "is_JBool (Some (JBool v)) = True"
| "is_JBool v = False"

fun is_JStr_or_null :: "json option \<Rightarrow> bool" where
  "is_JStr_or_null (Some (JStr v)) = True"
| "is_JStr_or_null (Some JNull) = True"
| "is_JStr_or_null v = False"

text \<open>
  The outbound message as the interface description gives it: the five fields with
  their types, an optional string \<open>message\<close>, and no other field.
\<close>

definition spec_broadcast_shape :: "json \<Rightarrow> bool" where
  "spec_broadcast_shape m =
     (distinct (json_keys m) \<and>
      is_JStr (json_field m ''camera_id'') \<and>
      is_JStr (json_field m ''camera_name'') \<and>
      is_JStr (json_field m ''timestamp'') \<and>
      is_JStr_or_null (json_field m ''image'') \<and>
      is_JBool (json_field m ''source_connected'') \<and>
      (json_field m ''message'' = None \<or> is_JStr (json_field m ''message'')) \<and>
      list_all (\<lambda>k. k \<in> set [''camera_id'', ''camera_name'', ''timestamp'', ''image'',
                               ''source_connected'', ''message'']) (json_keys m))"

text \<open>
  A message without one of its fields, and the \<open>status\<close> the broadcast loop reads with
  \<open>connection_status.get(camera_id, False)\<close>.
\<close>

fun remove_field :: "string \<Rightarrow> json \<Rightarrow> json" where
  "remove_field k (JObj kvs) = JObj (filter (\<lambda>kv. fst kv \<noteq> k) kvs)"
| "remove_field k JNull = JNull"
| "remove_field k (JBool v) = JBool v"
| "remove_field k (JNum v) = JNum v"
| "remove_field k (JStr v) = JStr v"
| "remove_field k (JArr v) = JArr v"

definition source_connected :: "CameraFrameBuffer \<Rightarrow> string \<Rightarrow> bool" where
  "source_connected b cid = (case connection_status b cid of None \<Rightarrow> False | Some v \<Rightarrow> v)"

section \<open>A library instance for evaluation\<close>

text \<open>
  Closed evaluations need one instance of the library parameters. This one knows a few
  message texts. The base64 text \<open>/9j/4AAQ\<close> is the six bytes \<open>FF D8 FF E0 00 10\<close>, the
  start of a JPEG file, and \<open>AAAA\<close> is three zero bytes; a text of one character is no
  base64 (incorrect padding). An image is represented by its bytes: bytes that start
  with the JPEG marker \<open>FF D8\<close> decode, an empty buffer makes \<open>imdecode\<close> raise, anything
  else gives \<open>None\<close>. Re-encoding returns the image's bytes with \<open>ret\<close> true.
\<close>

definition jpeg_head :: bytes where
  "jpeg_head = [CHR 0xFF, CHR 0xD8, CHR 0xFF, CHR 0xE0, CHR 0x00, CHR 0x10]"

definition stub_json_loads :: "string \<Rightarrow> py_exc + json" where
  "stub_json_loads data =
     (if data = ''{\"image\": \"/9j/4AAQ\"}'' then Inr (JObj [(''image'', JStr ''/9j/4AAQ'')])
      else if data = ''{\"image\": \"AAAA\"}'' then Inr (JObj [(''image'', JStr ''AAAA'')])
      else if data = ''{\"image\": \"a\"}'' then Inr (JObj [(''image'', JStr ''a'')])
      else if data = ''{\"image\": 5}'' then Inr (JObj [(''image'', JNum 5)])
      else if data = ''{\"frame\": \"/9j/4AAQ\"}'' then Inr (JObj [(''frame'', JStr ''/9j/4AAQ'')])
      else if data = ''[]'' then Inr (JArr [])
      else Inl JSONDecodeError)"

definition stub_b64decode :: "string \<Rightarrow> py_exc + bytes" where
  "stub_b64decode s =
     (if s = ''/9j/4AAQ'' then Inr jpeg_head
      else if s = ''AAAA'' then Inr [CHR 0x00, CHR 0x00, CHR 0x00]
      else Inl BinasciiError)"

definition stub_imdecode :: "bytes \<Rightarrow> py_exc + bytes option" where
  "stub_imdecode bs =
     (if bs = [] then Inl Cv2Error
      else if take 2 bs = [CHR 0xFF, CHR 0xD8] then Inr (Some bs)
      else Inr None)"

definition stub_b64encode :: "bytes \<Rightarrow> string" where
  "stub_b64encode bs = (if bs = jpeg_head then ''/9j/4AAQ'' else ''AAAA'')"

definition stub_libs :: "bytes py_libs" where
  "stub_libs =
     \<lparr>json_loads = stub_json_loads,
      b64decode = stub_b64decode,
      imdecode = stub_imdecode,
      imencode = (\<lambda>img. Inr (True, img)),
      b64encode = stub_b64encode\<rparr>"

definition front_view :: CameraConfig where
  "front_view = mk_config ''Front View'' ''ws://192.168.0.5'' 8765 9001 ''front_view''"

definition rear_view :: CameraConfig where
  "rear_view = mk_config ''Rear View'' ''ws://192.168.0.5'' 8766 9002 ''rear_view''"

text \<open>
  Two cameras interleaved: the front camera receives two good frames, a text whose
  image is valid base64 but no image, and a text that is no JSON; the rear camera
  receives one good frame.
\<close>

definition two_camera_session :: "(string \<times> event) list" where
  "two_camera_session =
     [(''front_view'', ConnectOk),
      (''rear_view'', ConnectOk),
      (''front_view'', RecvData ''{\"image\": \"/9j/4AAQ\"}'' 1),
      (''rear_view'', RecvData ''{\"image\": \"/9j/4AAQ\"}'' 2),
      (''front_view'', RecvData ''{\"image\": \"AAAA\"}'' 3),
      (''front_view'', RecvData ''not json'' 4),
      (''front_view'', RecvData ''{\"image\": \"/9j/4AAQ\"}'' 5)]"

section \<open>Frame buffer: basic facts\<close>

lemma frames_set_frame:
  "frames (snd (set_frame cid p ts now b)) =
     (frames b)(cid \<mapsto> Some (stored_bytes p))"
  by (cases p) (simp_all add: set_frame_def Let_def split: option.split)

lemma timestamps_set_frame:
  "timestamps (snd (set_frame cid p ts now b)) =
     (timestamps b)(cid \<mapsto> Some (case ts of None \<Rightarrow> now | Some t \<Rightarrow> t))"
  by (simp add: set_frame_def Let_def split: option.split)

lemma frame_counts_set_frame:
  "frame_counts (snd (set_frame cid p ts now b)) =
     (case frame_counts b cid of
        None \<Rightarrow> frame_counts b
      | Some n \<Rightarrow> (frame_counts b)(cid \<mapsto> n + 1))"
  by (simp add: set_frame_def Let_def split: option.split)

lemma connection_status_set_frame:
  "connection_status (snd (set_frame cid p ts now b)) = connection_status b"
  by (simp add: set_frame_def Let_def split: option.split)

lemma fst_set_frame:
  "fst (set_frame cid p ts now b) =
     (case frame_counts b cid of None \<Rightarrow> Inl KeyError | Some n \<Rightarrow> Inr ())"
  by (simp add: set_frame_def Let_def split: option.split)

lemma get_frame_set_connection_status:
  "get_frame (set_connection_status c s b) cid = get_frame b cid"
  by (simp add: get_frame_def set_connection_status_def)

lemma get_frame_set_frame:
  "get_frame (snd (set_frame c p ts now b)) cid =
     (if c = cid then Some (stored_bytes p) else get_frame b cid)"
  by (simp add: get_frame_def frames_set_frame)

lemma get_frame_init: "get_frame init_buffer cid = None"
  by (simp add: get_frame_def init_buffer_def CAMERA_CONFIGS_def mk_config_def)

lemma apply_ops_Cons: "apply_ops b (a # ops) = apply_ops (apply_op b a) ops"
  by (simp add: apply_ops_def)

lemma get_frame_apply_ops:
  "get_frame (apply_ops b ops) cid =
     (case latest_payload cid ops of None \<Rightarrow> get_frame b cid | Some v \<Rightarrow> Some v)"
proof (induction ops arbitrary: b)
  case Nil
  show ?case by (simp add: apply_ops_def)
next
  case (Cons a ops)
  show ?case
  proof (cases a)
    case (SetFrame c p ts now)
    show ?thesis
      unfolding SetFrame apply_ops_Cons Cons.IH
      by (simp add: get_frame_set_frame split: option.split)
  next
    case (SetConnected c s)
    show ?thesis
      unfolding SetConnected apply_ops_Cons Cons.IH
      by (simp add: get_frame_set_connection_status split: option.split)
  qed
qed

lemma frames_set_connection_status [simp]:
  "frames (set_connection_status c v b) = frames b"
  by (simp add: set_connection_status_def)

lemma timestamps_set_connection_status [simp]:
  "timestamps (set_connection_status c v b) = timestamps b"
  by (simp add: set_connection_status_def)

lemma frame_counts_set_connection_status [simp]:
  "frame_counts (set_connection_status c v b) = frame_counts b"
  by (simp add: set_connection_status_def)

lemma connection_status_set_connection_status [simp]:
  "connection_status (set_connection_status c v b) = (connection_status b)(c \<mapsto> v)"
  by (simp add: set_connection_status_def)

lemma frame_counts_apply_op_None:
  "frame_counts (apply_op b a) cid = None \<longleftrightarrow> frame_counts b cid = None"
  by (cases a) (auto simp: frame_counts_set_frame split: option.splits)

lemma frame_counts_apply_ops_None:
  "frame_counts (apply_ops b ops) cid = None \<longleftrightarrow> frame_counts b cid = None"
  by (induction ops arbitrary: b) (simp_all add: apply_ops_def frame_counts_apply_op_None)

lemma frame_counts_init_None:
  "cid \<notin> set configured_ids \<Longrightarrow> frame_counts init_buffer cid = None"
  by (simp add: init_buffer_def configured_ids_def map_of_eq_None_iff image_image)

lemma frame_counts_init_Some:
  "cid \<in> set configured_ids \<Longrightarrow> frame_counts init_buffer cid = Some 0"
  by (auto simp: init_buffer_def configured_ids_def CAMERA_CONFIGS_def mk_config_def)

section \<open>Frame buffer: the claims\<close>

text \<open>
  C6. \<open>get_frame\<close> returns the absent marker on the buffer as created, for every
  camera identifier; right after a \<open>set_frame\<close> call for a camera it returns the payload
  of that call; and after any sequence of calls on the buffer as created it returns the
  payload of the last \<open>set_frame\<close> call for that camera in the sequence (absent when the
  sequence holds none): each write replaces the one before.
\<close>

theorem C6_get_frame_latest_wins:
  "get_frame init_buffer cid = None \<and>
   get_frame (snd (set_frame cid p ts now b)) cid = Some (stored_bytes p) \<and>
   get_frame (apply_ops init_buffer ops) cid = latest_payload cid ops"
  by (simp add: get_frame_init get_frame_set_frame get_frame_apply_ops split: option.split)

theorem C6_get_frame_latest_wins_witness:
  "get_frame
     (apply_ops init_buffer
        [SetFrame ''front_view'' (PyStr ''AAAA'') None 1,
         SetConnected ''front_view'' True,
         SetFrame ''rear_view'' (PyStr ''BBBB'') None 2,
         SetFrame ''front_view'' (PyStr ''CCCC'') None 3,
         SetFrame ''rear_view'' (PyStr ''DDDD'') None 4])
     ''front_view'' = Some ''CCCC''"
  using C6_get_frame_latest_wins
    [of "''front_view''" "PyStr ''AAAA''" None 1 init_buffer
        "[SetFrame ''front_view'' (PyStr ''AAAA'') None 1,
          SetConnected ''front_view'' True,
          SetFrame ''rear_view'' (PyStr ''BBBB'') None 2,
          SetFrame ''front_view'' (PyStr ''CCCC'') None 3,
          SetFrame ''rear_view'' (PyStr ''DDDD'') None 4]"]
  by simp

text \<open>
  C9. For two distinct camera identifiers \<open>a\<close> and \<open>c\<close>, a \<open>set_frame\<close> call and a
  \<open>set_connection_status\<close> call for \<open>a\<close> leave the entries of \<open>c\<close> in all four
  dictionaries (stored frame, timestamp, frame counter, connection status) as they
  were, whatever the buffer and whether or not the call raises.
\<close>

theorem C9_cameras_disjoint:
  assumes "a \<noteq> c"
  shows "frames (snd (set_frame a p ts now b)) c = frames b c \<and>
         timestamps (snd (set_frame a p ts now b)) c = timestamps b c \<and>
         frame_counts (snd (set_frame a p ts now b)) c = frame_counts b c \<and>
         connection_status (snd (set_frame a p ts now b)) c = connection_status b c \<and>
         frames (set_connection_status a v b) c = frames b c \<and>
         timestamps (set_connection_status a v b) c = timestamps b c \<and>
         frame_counts (set_connection_status a v b) c = frame_counts b c \<and>
         connection_status (set_connection_status a v b) c = connection_status b c"
  using assms
  by (simp add: frames_set_frame timestamps_set_frame frame_counts_set_frame
      connection_status_set_frame split: option.split)

theorem C9_cameras_disjoint_witness:
  "frames (snd (set_frame ''front_view'' (PyStr ''AAAA'') None 1 init_buffer)) ''rear_view''
     = Some None \<and>
   timestamps (snd (set_frame ''front_view'' (PyStr ''AAAA'') None 1 init_buffer)) ''rear_view''
     = Some None \<and>
   frame_counts (snd (set_frame ''front_view'' (PyStr ''AAAA'') None 1 init_buffer)) ''rear_view''
     = Some 0 \<and>
   connection_status (set_connection_status ''front_view'' True init_buffer) ''rear_view''
     = Some False"
proof -
  have ne: "''front_view'' \<noteq> ''rear_view''" by simp
  have init:
    "frames init_buffer ''rear_view'' = Some None"
    "timestamps init_buffer ''rear_view'' = Some None"
    "frame_counts init_buffer ''rear_view'' = Some 0"
    "connection_status init_buffer ''rear_view'' = Some False"
    by (simp_all add: init_buffer_def CAMERA_CONFIGS_def mk_config_def)
  show ?thesis
    using C9_cameras_disjoint [OF ne, of "PyStr ''AAAA''" None 1 init_buffer True] init
    by simp
qed

text \<open>
  C10. For a camera identifier that is not configured, \<open>get_frame\<close> on the buffer as
  created returns the absent marker; and on the buffer after any sequence of calls,
  \<open>set_frame\<close> for that identifier raises \<open>KeyError\<close> and leaves a buffer that holds the
  payload and the timestamp of the call under that identifier and still has no frame
  counter for it: the failing call has mutated the store.
\<close>

theorem C10_set_frame_unconfigured_not_atomic:
  assumes "cid \<notin> set configured_ids"
  shows "get_frame init_buffer cid = None \<and>
         fst (set_frame cid p ts now (apply_ops init_buffer ops)) = Inl KeyError \<and>
         frames (snd (set_frame cid p ts now (apply_ops init_buffer ops))) cid
           = Some (Some (stored_bytes p)) \<and>
         timestamps (snd (set_frame cid p ts now (apply_ops init_buffer ops))) cid
           = Some (Some (case ts of None \<Rightarrow> now | Some t \<Rightarrow> t)) \<and>
         frame_counts (snd (set_frame cid p ts now (apply_ops init_buffer ops))) cid = None \<and>
         get_frame (snd (set_frame cid p ts now (apply_ops init_buffer ops))) cid
           = Some (stored_bytes p)"
proof -
  have none: "frame_counts (apply_ops init_buffer ops) cid = None"
    using assms by (simp add: frame_counts_apply_ops_None frame_counts_init_None)
  show ?thesis
    using none
    by (simp add: get_frame_init fst_set_frame frames_set_frame timestamps_set_frame
        frame_counts_set_frame get_frame_set_frame)
qed

theorem C10_set_frame_unconfigured_not_atomic_witness:
  "get_frame init_buffer ''side_cam'' = None \<and>
   fst (set_frame ''side_cam'' (PyStr ''AAAA'') None 7 init_buffer) = Inl KeyError \<and>
   frames (snd (set_frame ''side_cam'' (PyStr ''AAAA'') None 7 init_buffer)) ''side_cam''
     = Some (Some ''AAAA'') \<and>
   timestamps (snd (set_frame ''side_cam'' (PyStr ''AAAA'') None 7 init_buffer)) ''side_cam''
     = Some (Some 7) \<and>
   frame_counts (snd (set_frame ''side_cam'' (PyStr ''AAAA'') None 7 init_buffer)) ''side_cam''
     = None \<and>
   frames init_buffer ''side_cam'' = None"
proof -
  have un: "''side_cam'' \<notin> set configured_ids"
    by (simp add: configured_ids_def CAMERA_CONFIGS_def mk_config_def)
  have init: "frames init_buffer ''side_cam'' = None"
    by (simp add: init_buffer_def CAMERA_CONFIGS_def mk_config_def)
  show ?thesis
    using C10_set_frame_unconfigured_not_atomic [OF un, of "PyStr ''AAAA''" None 7 "[]"] init
    by (simp add: apply_ops_def)
qed

section \<open>Ingest connector: the frame counter\<close>

lemma frame_counts_process_frame_own:
  assumes "frame_counts b (camera_id config) = Some n"
  shows "frame_counts (snd (process_frame L config now jpg b)) (camera_id config) =
     Some (n + (case imdecode L jpg of
                  Inl e \<Rightarrow> 0
                | Inr None \<Rightarrow> 0
                | Inr (Some frame) \<Rightarrow>
                    (case imencode L frame of Inl e \<Rightarrow> 0 | Inr rb \<Rightarrow> if fst rb then 1 else 0)))"
  using assms
  by (simp add: process_frame_def frame_counts_set_frame split: sum.split option.split prod.split)

lemma frame_counts_process_frame_other:
  assumes "cid \<noteq> camera_id config"
  shows "frame_counts (snd (process_frame L config now jpg b)) cid = frame_counts b cid"
  using assms
  by (simp add: process_frame_def frame_counts_set_frame split: sum.split option.split prod.split)

lemma frame_counts_on_message_own:
  assumes "frame_counts b (camera_id config) = Some n"
  shows "frame_counts (snd (on_message L config now data b)) (camera_id config) =
     Some (n + (if frame_accepted L data then 1 else 0))"
  using assms
  by (simp add: on_message_def frame_accepted_def frame_counts_process_frame_own
      split: sum.split option.split prod.split)

lemma frame_counts_on_message_other:
  assumes "cid \<noteq> camera_id config"
  shows "frame_counts (snd (on_message L config now data b)) cid = frame_counts b cid"
  using assms
  by (simp add: on_message_def frame_counts_process_frame_other split: sum.split)

lemma frame_counts_outer_handler:
  "frame_counts (snd (outer_handler config m e cb)) = frame_counts (snd cb)"
  by (simp add: outer_handler_def Let_def)

lemma receive_camera_feed_step_frame_counts_own:
  assumes "receive_camera_feed_step L config m (c, b) ev = Some cb'"
    and "frame_counts b (camera_id config) = Some n"
  shows "frame_counts (snd cb') (camera_id config) =
     Some (n + (if accepted_event L ev then 1 else 0))"
proof (cases ev)
  case (RecvData data now)
  with assms(1) have "snd cb' = snd (on_message L config now data b)"
    by (auto simp: receive_camera_feed_step_def Let_def split: phase.splits loop_ctl.splits prod.splits)
  then show ?thesis
    using RecvData frame_counts_on_message_own [OF assms(2), of L now data] by simp
qed (use assms in \<open>auto simp: receive_camera_feed_step_def Let_def frame_counts_outer_handler
       split: phase.splits\<close>)

lemma receive_camera_feed_step_frame_counts_other:
  assumes "receive_camera_feed_step L config m (c, b) ev = Some cb'"
    and "cid \<noteq> camera_id config"
  shows "frame_counts (snd cb') cid = frame_counts b cid"
proof (cases ev)
  case (RecvData data now)
  with assms(1) have "snd cb' = snd (on_message L config now data b)"
    by (auto simp: receive_camera_feed_step_def Let_def split: phase.splits loop_ctl.splits prod.splits)
  then show ?thesis
    using frame_counts_on_message_other [OF assms(2), of L now data b] by simp
qed (use assms in \<open>auto simp: receive_camera_feed_step_def Let_def frame_counts_outer_handler
       split: phase.splits\<close>)

lemma relay_step_frame_counts:
  assumes "relay_step L s tev = Some s'"
    and "frame_counts (frame_buffer s) cid = Some n"
  shows "frame_counts (frame_buffer s') cid =
     Some (n + (if fst tev = cid \<and> accepted_event L (snd tev) then 1 else 0))"
proof -
  from assms(1) obtain config cb where
    f: "find (\<lambda>config. camera_id config = fst tev) CAMERA_CONFIGS = Some config"
    and r: "receive_camera_feed_step L config DEFAULT_MAX_RETRIES (connectors s (fst tev), frame_buffer s) (snd tev)
              = Some cb"
    and s': "frame_buffer s' = snd cb"
    by (auto simp: relay_step_def split: option.splits)
  from f have id: "camera_id config = fst tev"
    by (auto simp: find_Some_iff)
  show ?thesis
  proof (cases "fst tev = cid")
    case True
    then show ?thesis
      using receive_camera_feed_step_frame_counts_own [OF r] assms(2) id s' by simp
  next
    case False
    then show ?thesis
      using receive_camera_feed_step_frame_counts_other [OF r, of cid] assms(2) id s' by simp
  qed
qed

lemma relay_run_frame_counts:
  assumes "relay_run L s tevs = Some s'"
    and "frame_counts (frame_buffer s) cid = Some n"
  shows "frame_counts (frame_buffer s') cid = Some (n + int (accepted_count L cid tevs))"
  using assms
proof (induction tevs arbitrary: s n)
  case Nil
  then show ?case by (simp add: accepted_count_def)
next
  case (Cons tev tevs)
  from Cons.prems(1) obtain s1 where
    st: "relay_step L s tev = Some s1" and rn: "relay_run L s1 tevs = Some s'"
    by (auto split: option.splits)
  from relay_step_frame_counts [OF st Cons.prems(2)]
  have c1: "frame_counts (frame_buffer s1) cid =
     Some (n + (if fst tev = cid \<and> accepted_event L (snd tev) then 1 else 0))" .
  from Cons.IH [OF rn c1] show ?case
    by (simp add: accepted_count_def)
qed

lemmas stub_defs =
  stub_libs_def stub_json_loads_def stub_b64decode_def stub_imdecode_def stub_b64encode_def
  jpeg_head_def

lemmas ingest_defs =
  receive_camera_feed_step_def outer_handler_def on_message_def decode_message_def process_frame_def
  set_frame_def set_connection_status_def init_connector_def init_buffer_def
  CAMERA_CONFIGS_def mk_config_def DEFAULT_MAX_RETRIES_def Let_def

lemma two_camera_session_runs:
  "relay_run stub_libs init_relay two_camera_session \<noteq> None"
  by (simp add: two_camera_session_def relay_step_def init_relay_def ingest_defs stub_defs)

lemma two_camera_session_accepted:
  "accepted_count stub_libs ''front_view'' two_camera_session = 2"
  by (simp add: two_camera_session_def accepted_count_def frame_accepted_def
      decode_message_def stub_defs)

text \<open>
  C5. For a configured camera, at every point of a run of the process (the ingest
  connectors of all cameras interleaved on the one buffer, from the buffer as created)
  the frame counter equals the number of messages received for that camera that parsed,
  decoded and re-encoded; a \<open>set_frame\<close> call for it then returns normally and makes
  the counter exactly one larger; and a further step of the process adds exactly one when
  it is an accepted frame of this camera and leaves the counter as it is otherwise, so the
  counter never decreases and strictly increases over accepted frames.
\<close>

theorem C5_frame_counter:
  assumes "cid \<in> set configured_ids"
    and "relay_run L init_relay tevs = Some s"
  shows "frame_counts (frame_buffer s) cid = Some (int (accepted_count L cid tevs)) \<and>
         (\<forall>p ts now.
            fst (set_frame cid p ts now (frame_buffer s)) = Inr () \<and>
            frame_counts (snd (set_frame cid p ts now (frame_buffer s))) cid
              = Some (int (accepted_count L cid tevs) + 1)) \<and>
         (\<forall>tev s'. relay_step L s tev = Some s' \<longrightarrow>
            frame_counts (frame_buffer s') cid
              = Some (int (accepted_count L cid tevs)
                      + (if fst tev = cid \<and> accepted_event L (snd tev) then 1 else 0)))"
proof -
  have init: "frame_counts (frame_buffer init_relay) cid = Some 0"
    using assms(1) by (simp add: init_relay_def frame_counts_init_Some)
  have now: "frame_counts (frame_buffer s) cid = Some (int (accepted_count L cid tevs))"
    using relay_run_frame_counts [OF assms(2) init] by simp
  show ?thesis
    using now relay_step_frame_counts [of L s _ _ cid]
    by (simp add: fst_set_frame frame_counts_set_frame)
qed

theorem C5_frame_counter_witness:
  "\<exists>s. relay_run stub_libs init_relay two_camera_session = Some s \<and>
       frame_counts (frame_buffer s) ''front_view'' = Some 2 \<and>
       fst (set_frame ''front_view'' (PyStr ''/9j/4AAQ'') None 6 (frame_buffer s)) = Inr () \<and>
       frame_counts (snd (set_frame ''front_view'' (PyStr ''/9j/4AAQ'') None 6 (frame_buffer s)))
         ''front_view'' = Some 3"
proof -
  obtain s where run: "relay_run stub_libs init_relay two_camera_session = Some s"
    using two_camera_session_runs by blast
  have cfg: "''front_view'' \<in> set configured_ids"
    by (simp add: configured_ids_def CAMERA_CONFIGS_def mk_config_def)
  show ?thesis
    using C5_frame_counter [OF cfg run] run two_camera_session_accepted
    by simp
qed

section \<open>Ingest connector: reconnection\<close>

lemma receive_camera_feed_append:
  "receive_camera_feed L config m cb (es @ es') =
     (case receive_camera_feed L config m cb es of
        None \<Rightarrow> None
      | Some cb' \<Rightarrow> receive_camera_feed L config m cb' es')"
  by (induction es arbitrary: cb) (simp_all split: option.split)

lemma backoff_trace_Suc:
  "backoff_trace (Suc n) = backoff_trace n @ [Sleep (min (2 ^ Suc n) 30), ConnectAttempt]"
  by (simp add: backoff_trace_def)

lemma waits_append: "waits (as @ bs) = waits as @ waits bs"
  by (induction as rule: waits.induct) simp_all

lemma waits_backoff_trace: "waits (backoff_trace n) = map (\<lambda>k. min (2 ^ k) 30) [1..<n + 1]"
  by (induction n) (simp_all add: backoff_trace_Suc waits_append, simp add: backoff_trace_def)

lemma attempts_backoff_trace: "attempts (backoff_trace n) = n + 1"
  by (induction n) (simp_all add: backoff_trace_Suc attempts_def, simp add: backoff_trace_def)

lemma failed_connects_back_off:
  assumes "list_all connect_failure es" and "int (length es) \<le> m"
  shows "\<exists>b'. receive_camera_feed L config m (init_connector, b) es =
           Some (\<lparr>phase = Connecting, retry_count = length es,
                   trace = backoff_trace (length es)\<rparr>, b') \<and>
              (es \<noteq> [] \<longrightarrow> connection_status b' (camera_id config) = Some False)"
  using assms
proof (induction es rule: rev_induct)
  case Nil
  show ?case by (simp add: init_connector_def backoff_trace_def)
next
  case (snoc e es)
  from snoc.prems have fs: "list_all connect_failure es" and le: "int (length es) \<le> m"
    and e: "connect_failure e" and lt: "int (length es) + 1 \<le> m"
    by simp_all
  from snoc.IH [OF fs le] obtain b' where
    run: "receive_camera_feed L config m (init_connector, b) es =
            Some (\<lparr>phase = Connecting, retry_count = length es,
                    trace = backoff_trace (length es)\<rparr>, b')"
    by blast
  have step: "receive_camera_feed_step L config m
                (\<lparr>phase = Connecting, retry_count = length es,
                   trace = backoff_trace (length es)\<rparr>, b') e =
              Some (\<lparr>phase = Connecting, retry_count = Suc (length es),
                      trace = backoff_trace (Suc (length es))\<rparr>,
                    set_connection_status (camera_id config) False b')"
    using e lt
    by (auto simp: connect_failure_def receive_camera_feed_step_def outer_handler_def Let_def
        backoff_trace_Suc)
  show ?case
    by (simp add: receive_camera_feed_append run step)
qed

lemma failed_state_is_terminal:
  "phase c = Failed \<Longrightarrow> receive_camera_feed_step L config m (c, b) ev = None"
  by (simp add: receive_camera_feed_step_def Let_def)

lemma sixth_failure_gives_up:
  assumes "list_all connect_failure es" and "length es = 6"
  shows "\<exists>b'. receive_camera_feed L config DEFAULT_MAX_RETRIES (init_connector, b) es =
           Some (\<lparr>phase = Failed, retry_count = 6, trace = backoff_trace 5\<rparr>, b') \<and>
              connection_status b' (camera_id config) = Some False"
proof -
  from assms(2) obtain es5 e where es: "es = es5 @ [e]" and l5: "length es5 = 5"
    by (cases es rule: rev_cases) auto
  from assms(1) es have fs: "list_all connect_failure es5" and e: "connect_failure e"
    by simp_all
  from failed_connects_back_off [OF fs, of DEFAULT_MAX_RETRIES L config b] l5
  obtain b' where
    run: "receive_camera_feed L config DEFAULT_MAX_RETRIES (init_connector, b) es5 =
            Some (\<lparr>phase = Connecting, retry_count = 5, trace = backoff_trace 5\<rparr>, b')"
    by (auto simp: DEFAULT_MAX_RETRIES_def)
  have step: "receive_camera_feed_step L config DEFAULT_MAX_RETRIES
                (\<lparr>phase = Connecting, retry_count = 5, trace = backoff_trace 5\<rparr>, b') e =
              Some (\<lparr>phase = Failed, retry_count = 6, trace = backoff_trace 5\<rparr>,
                    set_connection_status (camera_id config) False b')"
    using e
    by (auto simp: connect_failure_def receive_camera_feed_step_def outer_handler_def Let_def
        DEFAULT_MAX_RETRIES_def)
  show ?thesis
    by (simp add: es receive_camera_feed_append run step)
qed

lemma backoff_waits_take:
  assumes "n \<le> 5"
  shows "map (\<lambda>k. min (2 ^ k) 30) [1..<n + 1] = take n [2, 4, 8, 16, 30 :: nat]"
proof -
  from assms consider "n = 0" | "n = 1" | "n = 2" | "n = 3" | "n = 4" | "n = 5"
    by linarith
  then show ?thesis
    by cases (simp_all add: upt_rec)
qed

lemma waits_backoff_take:
  "n \<le> 5 \<Longrightarrow> waits (backoff_trace n) = take n [2, 4, 8, 16, 30]"
  unfolding waits_backoff_trace by (rule backoff_waits_take)

text \<open>
  C2 (as amended). When the connection attempts of a camera fail in a row with
  connection-refused or connection-closed errors, from the start of its connector with
  the default budget of 5: after the first to the fifth failure the connector sleeps 2,
  4, 8, 16 and 30 time units (\<open>min(2^retry_count, 30)\<close>) and then issues a new attempt, so
  after five failures a sixth attempt is pending; on the sixth failure the retry count
  exceeds the budget, the connector marks the camera disconnected and returns without
  sleeping: no further attempt is issued and no event is accepted any more.
\<close>

theorem C2_backoff_schedule:
  assumes "list_all connect_failure es"
  shows "(length es \<le> 5 \<longrightarrow>
           (\<exists>c b'. receive_camera_feed L config DEFAULT_MAX_RETRIES (init_connector, b) es = Some (c, b') \<and>
                    phase c = Connecting \<and>
                    waits (trace c) = take (length es) [2, 4, 8, 16, 30] \<and>
                    attempts (trace c) = length es + 1)) \<and>
         (length es = 6 \<longrightarrow>
           (\<exists>c b'. receive_camera_feed L config DEFAULT_MAX_RETRIES (init_connector, b) es = Some (c, b') \<and>
                    phase c = Failed \<and>
                    waits (trace c) = [2, 4, 8, 16, 30] \<and>
                    attempts (trace c) = 6 \<and>
                    connection_status b' (camera_id config) = Some False \<and>
                    (\<forall>ev. receive_camera_feed_step L config DEFAULT_MAX_RETRIES (c, b') ev = None))) \<and>
         (length es > 6 \<longrightarrow>
            receive_camera_feed L config DEFAULT_MAX_RETRIES (init_connector, b) es = None)"
proof (intro conjI impI)
  assume le: "length es \<le> 5"
  then have "int (length es) \<le> DEFAULT_MAX_RETRIES"
    by (simp add: DEFAULT_MAX_RETRIES_def)
  from failed_connects_back_off [OF assms this, of L config b] obtain b' where
    "receive_camera_feed L config DEFAULT_MAX_RETRIES (init_connector, b) es =
       Some (\<lparr>phase = Connecting, retry_count = length es,
               trace = backoff_trace (length es)\<rparr>, b')"
    by blast
  then show "\<exists>c b'. receive_camera_feed L config DEFAULT_MAX_RETRIES (init_connector, b) es = Some (c, b') \<and>
                    phase c = Connecting \<and>
                    waits (trace c) = take (length es) [2, 4, 8, 16, 30] \<and>
                    attempts (trace c) = length es + 1"
    using le by (simp add: waits_backoff_take attempts_backoff_trace)
next
  assume l6: "length es = 6"
  from sixth_failure_gives_up [OF assms l6, of L config b] obtain b' where
    "receive_camera_feed L config DEFAULT_MAX_RETRIES (init_connector, b) es =
       Some (\<lparr>phase = Failed, retry_count = 6, trace = backoff_trace 5\<rparr>, b')"
    "connection_status b' (camera_id config) = Some False"
    by blast
  then show "\<exists>c b'. receive_camera_feed L config DEFAULT_MAX_RETRIES (init_connector, b) es = Some (c, b') \<and>
                    phase c = Failed \<and>
                    waits (trace c) = [2, 4, 8, 16, 30] \<and>
                    attempts (trace c) = 6 \<and>
                    connection_status b' (camera_id config) = Some False \<and>
                    (\<forall>ev. receive_camera_feed_step L config DEFAULT_MAX_RETRIES (c, b') ev = None)"
    using waits_backoff_take [of 5]
    by (simp add: attempts_backoff_trace failed_state_is_terminal)
next
  assume g6: "length es > 6"
  define es6 where "es6 = take 6 es"
  define rest where "rest = drop 6 es"
  have es: "es = es6 @ rest" and l6: "length es6 = 6" and ne: "rest \<noteq> []"
    using g6 by (simp_all add: es6_def rest_def)
  have fs: "list_all connect_failure es6"
    using assms by (simp add: es6_def list_all_iff) (meson in_set_takeD)
  from sixth_failure_gives_up [OF fs l6, of L config b] obtain b' where
    run: "receive_camera_feed L config DEFAULT_MAX_RETRIES (init_connector, b) es6 =
       Some (\<lparr>phase = Failed, retry_count = 6, trace = backoff_trace 5\<rparr>, b')"
    by blast
  from ne obtain e rest' where rest: "rest = e # rest'"
    by (cases rest) auto
  show "receive_camera_feed L config DEFAULT_MAX_RETRIES (init_connector, b) es = None"
    by (simp add: es receive_camera_feed_append run rest failed_state_is_terminal)
qed

theorem C2_backoff_schedule_witness:
  "(\<exists>c b'. receive_camera_feed stub_libs front_view DEFAULT_MAX_RETRIES (init_connector, init_buffer)
              (replicate 5 (ConnectRaises ConnectionRefusedError)) = Some (c, b') \<and>
            phase c = Connecting \<and>
            waits (trace c) = [2, 4, 8, 16, 30] \<and>
            attempts (trace c) = 6) \<and>
   (\<exists>c b'. receive_camera_feed stub_libs front_view DEFAULT_MAX_RETRIES (init_connector, init_buffer)
              (replicate 6 (ConnectRaises ConnectionRefusedError)) = Some (c, b') \<and>
            phase c = Failed \<and>
            waits (trace c) = [2, 4, 8, 16, 30] \<and>
            attempts (trace c) = 6 \<and>
            connection_status b' ''front_view'' = Some False \<and>
            (\<forall>ev. receive_camera_feed_step stub_libs front_view DEFAULT_MAX_RETRIES (c, b') ev = None))"
proof -
  have f5: "list_all connect_failure (replicate 5 (ConnectRaises ConnectionRefusedError))"
    and f6: "list_all connect_failure (replicate 6 (ConnectRaises ConnectionRefusedError))"
    by (simp_all add: connect_failure_def list_all_iff)
  have id: "camera_id front_view = ''front_view''"
    by (simp add: front_view_def mk_config_def)
  show ?thesis
    using C2_backoff_schedule [OF f5, of stub_libs front_view init_buffer]
      C2_backoff_schedule [OF f6, of stub_libs front_view init_buffer] id
    by simp
qed

text \<open>
  C2 as stated fails: after five refused attempts the front camera's connector has slept
  30 time units and issued a sixth attempt (it is \<open>Connecting\<close>, not \<open>Failed\<close>); only the
  sixth refusal ends it, and the sleeps are 2, 4, 8, 16, 30 with no second 30.
\<close>

theorem C2_five_failures_counterexample:
  "receive_camera_feed stub_libs front_view DEFAULT_MAX_RETRIES (init_connector, init_buffer)
     [ConnectRaises ConnectionRefusedError, ConnectRaises ConnectionRefusedError,
      ConnectRaises ConnectionRefusedError, ConnectRaises ConnectionRefusedError,
      ConnectRaises ConnectionRefusedError] =
   Some (\<lparr>phase = Connecting, retry_count = 5,
           trace = [ConnectAttempt, Sleep 2, ConnectAttempt, Sleep 4, ConnectAttempt,
                    Sleep 8, ConnectAttempt, Sleep 16, ConnectAttempt, Sleep 30,
                    ConnectAttempt]\<rparr>,
         set_connection_status ''front_view'' False init_buffer) \<and>
   receive_camera_feed stub_libs front_view DEFAULT_MAX_RETRIES (init_connector, init_buffer)
     [ConnectRaises ConnectionRefusedError, ConnectRaises ConnectionRefusedError,
      ConnectRaises ConnectionRefusedError, ConnectRaises ConnectionRefusedError,
      ConnectRaises ConnectionRefusedError, ConnectRaises ConnectionRefusedError] =
   Some (\<lparr>phase = Failed, retry_count = 6,
           trace = [ConnectAttempt, Sleep 2, ConnectAttempt, Sleep 4, ConnectAttempt,
                    Sleep 8, ConnectAttempt, Sleep 16, ConnectAttempt, Sleep 30,
                    ConnectAttempt]\<rparr>,
         set_connection_status ''front_view'' False init_buffer)"
  by (simp add: receive_camera_feed_step_def outer_handler_def Let_def init_connector_def
      front_view_def mk_config_def DEFAULT_MAX_RETRIES_def set_connection_status_def)

section \<open>Ingest connector: leaving the stream\<close>

lemma recv_failure_reconnects:
  assumes "phase c = Streaming"
  shows "receive_camera_feed_step L config m (c, b) (RecvRaises e) =
           Some (c\<lparr>phase := Connecting, trace := trace c @ [CloseConnection, ConnectAttempt]\<rparr>, b)"
  using assms by (simp add: receive_camera_feed_step_def Let_def)

lemma connect_ok_streams:
  assumes "phase c = Connecting"
  shows "receive_camera_feed_step L config m (c, b) ConnectOk =
           Some (c\<lparr>phase := Streaming, retry_count := 0\<rparr>,
                 set_connection_status (camera_id config) True b)"
  using assms by (simp add: receive_camera_feed_step_def Let_def)

text \<open>What the first inner handler does catch: the message is dropped, the loop goes on.\<close>

lemma unparseable_message_discarded:
  assumes "phase c = Streaming" and "json_loads L data = Inl JSONDecodeError"
  shows "receive_camera_feed_step L config m (c, b) (RecvData data now) = Some (c, b)"
  using assms by (simp add: receive_camera_feed_step_def on_message_def decode_message_def Let_def)

lemma object_without_image_discarded:
  assumes "phase c = Streaming" and "json_loads L data = Inr (JObj kvs)"
    and "map_of kvs ''image'' = None"
  shows "receive_camera_feed_step L config m (c, b) (RecvData data now) = Some (c, b)"
  using assms by (simp add: receive_camera_feed_step_def on_message_def decode_message_def Let_def)

lemma undecodable_image_discarded:
  assumes "phase c = Streaming" and "decode_message L data = Inr jpg_bytes"
    and "imdecode L jpg_bytes = Inr None \<or> imdecode L jpg_bytes = Inl e"
  shows "receive_camera_feed_step L config m (c, b) (RecvData data now) = Some (c, b)"
  using assms by (auto simp: receive_camera_feed_step_def on_message_def process_frame_def Let_def)

text \<open>What it does not catch.\<close>

lemma uncaught_decode_error_closes:
  assumes "phase c = Streaming" and "decode_message L data = Inl e"
    and "e \<noteq> JSONDecodeError" and "e \<noteq> KeyError"
  shows "receive_camera_feed_step L config m (c, b) (RecvData data now) =
           Some (c\<lparr>phase := Connecting, trace := trace c @ [CloseConnection, ConnectAttempt]\<rparr>, b)"
  using assms by (simp add: receive_camera_feed_step_def on_message_def Let_def)

text \<open>
  C1 (evaluation at the failing input). The front camera connects and the read deadline
  then expires, or the source then closes the connection: the connector leaves the
  stream, closes the connection and has its next connection attempt pending, with the
  retry count still 0, no sleep in between and the camera's connection status still
  true. The status is set to false only by the handlers of the outer \<open>try\<close>, which
  an exception of \<open>recv\<close> never reaches.
\<close>

theorem C1_status_stays_connected_after_stream_loss:
  "(\<exists>c b. receive_camera_feed stub_libs front_view DEFAULT_MAX_RETRIES (init_connector, init_buffer)
            [ConnectOk, RecvRaises TimeoutError] = Some (c, b) \<and>
          phase c = Connecting \<and>
          trace c = [ConnectAttempt, CloseConnection, ConnectAttempt] \<and>
          retry_count c = 0 \<and>
          connection_status b ''front_view'' = Some True) \<and>
   (\<exists>c b. receive_camera_feed stub_libs front_view DEFAULT_MAX_RETRIES (init_connector, init_buffer)
            [ConnectOk, RecvRaises ConnectionClosed] = Some (c, b) \<and>
          phase c = Connecting \<and>
          trace c = [ConnectAttempt, CloseConnection, ConnectAttempt] \<and>
          retry_count c = 0 \<and>
          connection_status b ''front_view'' = Some True)"
  by (simp add: receive_camera_feed_step_def Let_def init_connector_def front_view_def mk_config_def)

text \<open>
  C3 (evaluation at the failing input). The front camera connects, delivers three valid
  frames and closes the connection: the frame counter is 3, but the connection status
  is still true, and the next connection attempt is issued at once, with no sleep.
\<close>

theorem C3_three_frames_then_close:
  "\<exists>c b. receive_camera_feed stub_libs front_view DEFAULT_MAX_RETRIES (init_connector, init_buffer)
            [ConnectOk,
             RecvData ''{\"image\": \"/9j/4AAQ\"}'' 1,
             RecvData ''{\"image\": \"/9j/4AAQ\"}'' 2,
             RecvData ''{\"image\": \"/9j/4AAQ\"}'' 3,
             RecvRaises ConnectionClosed] = Some (c, b) \<and>
          frame_counts b ''front_view'' = Some 3 \<and>
          connection_status b ''front_view'' = Some True \<and>
          phase c = Connecting \<and>
          trace c = [ConnectAttempt, CloseConnection, ConnectAttempt] \<and>
          waits (trace c) = []"
  by (simp add: front_view_def ingest_defs stub_defs)

text \<open>
  C4 (evaluation at the failing inputs). A message that is a JSON array, a message whose
  image field is a number, and a message whose image field is a string that is no
  base64 each make the connector leave the stream and close the connection; the frame
  counter stays 0. Subscripting the array and decoding the number raise \<open>TypeError\<close>,
  the bad base64 raises \<open>binascii.Error\<close>, and the first inner handler names neither.
\<close>

theorem C4_malformed_message_closes_connection:
  "(\<exists>c b. receive_camera_feed stub_libs front_view DEFAULT_MAX_RETRIES (init_connector, init_buffer)
            [ConnectOk, RecvData ''[]'' 1] = Some (c, b) \<and>
          phase c = Connecting \<and>
          trace c = [ConnectAttempt, CloseConnection, ConnectAttempt] \<and>
          frame_counts b ''front_view'' = Some 0) \<and>
   (\<exists>c b. receive_camera_feed stub_libs front_view DEFAULT_MAX_RETRIES (init_connector, init_buffer)
            [ConnectOk, RecvData ''{\"image\": 5}'' 1] = Some (c, b) \<and>
          phase c = Connecting \<and>
          trace c = [ConnectAttempt, CloseConnection, ConnectAttempt] \<and>
          frame_counts b ''front_view'' = Some 0) \<and>
   (\<exists>c b. receive_camera_feed stub_libs front_view DEFAULT_MAX_RETRIES (init_connector, init_buffer)
            [ConnectOk, RecvData ''{\"image\": \"a\"}'' 1] = Some (c, b) \<and>
          phase c = Connecting \<and>
          trace c = [ConnectAttempt, CloseConnection, ConnectAttempt] \<and>
          frame_counts b ''front_view'' = Some 0)"
  by (simp add: front_view_def ingest_defs stub_defs)

section \<open>Broadcast server: the messages\<close>

lemma broadcast_camera_feed_absent:
  assumes "get_frame b (camera_id config) = None \<or> get_frame b (camera_id config) = Some []"
  shows "broadcast_camera_feed config now_iso b =
           Inr (JObj [(''camera_id'', JStr (camera_id config)),
                      (''camera_name'', JStr (name config)),
                      (''timestamp'', JStr now_iso),
                      (''image'', JNull),
                      (''is_grayscale'', JBool False),
                      (''source_connected'', JBool (source_connected b (camera_id config))),
                      (''message'', JStr ''Waiting for first frame...'')])"
  using assms by (auto simp: broadcast_camera_feed_def source_connected_def Let_def)

lemma broadcast_camera_feed_present:
  assumes "get_frame b (camera_id config) = Some bs" and "bs \<noteq> []" and "utf8_valid bs"
  shows "broadcast_camera_feed config now_iso b =
           Inr (JObj [(''camera_id'', JStr (camera_id config)),
                      (''camera_name'', JStr (name config)),
                      (''timestamp'', JStr now_iso),
                      (''image'', JStr bs),
                      (''is_grayscale'', JBool False),
                      (''source_connected'', JBool (source_connected b (camera_id config)))])"
  using assms
  by (simp add: broadcast_camera_feed_def bytes_decode_def source_connected_def Let_def)

lemma broadcast_camera_feed_raises:
  assumes "get_frame b (camera_id config) = Some bs" and "bs \<noteq> []" and "\<not> utf8_valid bs"
  shows "broadcast_camera_feed config now_iso b = Inl UnicodeDecodeError"
  using assms
  by (simp add: broadcast_camera_feed_def bytes_decode_def Let_def)

lemma broadcast_camera_feed_cases:
  obtains
    (absent) "get_frame b (camera_id config) = None \<or> get_frame b (camera_id config) = Some []"
  | (present) bs where "get_frame b (camera_id config) = Some bs" "bs \<noteq> []" "utf8_valid bs"
  | (raises) bs where "get_frame b (camera_id config) = Some bs" "bs \<noteq> []" "\<not> utf8_valid bs"
  by (cases "get_frame b (camera_id config)") auto




text \<open>
  C8 (as amended). Every message the broadcast loop sends has the keys \<open>camera_id\<close>,
  \<open>camera_name\<close>, \<open>timestamp\<close>, \<open>image\<close>, \<open>is_grayscale\<close> and \<open>source_connected\<close>, in
  this order, followed by \<open>message\<close> exactly when the image is null; \<open>is_grayscale\<close>
  is always false; the identifier, the name and the timestamp are the strings of the
  configuration and the clock, \<open>source_connected\<close> is the camera's status as a
  boolean; and without \<open>is_grayscale\<close> the message has the shape the interface
  description gives. This holds of every pass of the loop, whatever the buffer: a pass
  sends such a message, except that it raises \<open>UnicodeDecodeError\<close> and sends nothing
  when the stored frame is non-empty bytes that are no UTF-8.
\<close>

theorem C8_broadcast_message_shape:
  "case broadcast_camera_feed config now_iso b of
     Inr m \<Rightarrow>
       json_keys m =
         [''camera_id'', ''camera_name'', ''timestamp'', ''image'', ''is_grayscale'',
          ''source_connected'']
         @ (if json_field m ''image'' = Some JNull then [''message''] else []) \<and>
       json_field m ''is_grayscale'' = Some (JBool False) \<and>
       json_field m ''camera_id'' = Some (JStr (camera_id config)) \<and>
       json_field m ''camera_name'' = Some (JStr (name config)) \<and>
       json_field m ''timestamp'' = Some (JStr now_iso) \<and>
       json_field m ''source_connected''
         = Some (JBool (source_connected b (camera_id config))) \<and>
       spec_broadcast_shape (remove_field ''is_grayscale'' m)
   | Inl e \<Rightarrow>
       e = UnicodeDecodeError \<and>
       (\<exists>bs. get_frame b (camera_id config) = Some bs \<and> bs \<noteq> [] \<and> \<not> utf8_valid bs)"
proof (cases b config rule: broadcast_camera_feed_cases)
  case absent
  show ?thesis
    unfolding broadcast_camera_feed_absent [OF absent]
    by (simp add: spec_broadcast_shape_def)
next
  case (present bs)
  show ?thesis
    unfolding broadcast_camera_feed_present [OF present]
    by (simp add: spec_broadcast_shape_def)
next
  case (raises bs)
  show ?thesis
    unfolding broadcast_camera_feed_raises [OF raises]
    using raises by simp
qed

theorem C8_broadcast_message_shape_witness:
  "broadcast_camera_feed front_view ''2026-11-04T07:21:00.000000'' init_buffer =
     Inr (JObj [(''camera_id'', JStr ''front_view''),
                (''camera_name'', JStr ''Front View''),
                (''timestamp'', JStr ''2026-11-04T07:21:00.000000''),
                (''image'', JNull),
                (''is_grayscale'', JBool False),
                (''source_connected'', JBool False),
                (''message'', JStr ''Waiting for first frame...'')]) \<and>
   spec_broadcast_shape
     (remove_field ''is_grayscale''
        (JObj [(''camera_id'', JStr ''front_view''),
               (''camera_name'', JStr ''Front View''),
               (''timestamp'', JStr ''2026-11-04T07:21:00.000000''),
               (''image'', JNull),
               (''is_grayscale'', JBool False),
               (''source_connected'', JBool False),
               (''message'', JStr ''Waiting for first frame...'')]))"
proof -
  have run: "broadcast_camera_feed front_view ''2026-11-04T07:21:00.000000'' init_buffer =
     Inr (JObj [(''camera_id'', JStr ''front_view''),
                (''camera_name'', JStr ''Front View''),
                (''timestamp'', JStr ''2026-11-04T07:21:00.000000''),
                (''image'', JNull),
                (''is_grayscale'', JBool False),
                (''source_connected'', JBool False),
                (''message'', JStr ''Waiting for first frame...'')])"
    by (simp add: broadcast_camera_feed_def get_frame_def front_view_def mk_config_def
        init_buffer_def CAMERA_CONFIGS_def Let_def)
  show ?thesis
    using C8_broadcast_message_shape
      [where config = front_view and now_iso = "''2026-11-04T07:21:00.000000''"
         and b = init_buffer]
    unfolding run by (simp add: front_view_def mk_config_def)
qed

text \<open>
  C8 as stated fails: the placeholder sent for the front camera on the buffer as created,
  and the message sent after a frame is stored, both carry the field \<open>is_grayscale\<close>,
  which the described shape does not allow.
\<close>

theorem C8_extra_field_counterexample:
  "broadcast_camera_feed front_view ''2026-11-04T07:21:00.000000'' init_buffer =
     Inr (JObj [(''camera_id'', JStr ''front_view''),
                (''camera_name'', JStr ''Front View''),
                (''timestamp'', JStr ''2026-11-04T07:21:00.000000''),
                (''image'', JNull),
                (''is_grayscale'', JBool False),
                (''source_connected'', JBool False),
                (''message'', JStr ''Waiting for first frame...'')]) \<and>
   \<not> spec_broadcast_shape
       (JObj [(''camera_id'', JStr ''front_view''),
              (''camera_name'', JStr ''Front View''),
              (''timestamp'', JStr ''2026-11-04T07:21:00.000000''),
              (''image'', JNull),
              (''is_grayscale'', JBool False),
              (''source_connected'', JBool False),
              (''message'', JStr ''Waiting for first frame...'')]) \<and>
   broadcast_camera_feed front_view ''2026-11-04T07:21:00.033000''
     (snd (set_frame ''front_view'' (PyStr ''/9j/4AAQ'') None 1 init_buffer)) =
     Inr (JObj [(''camera_id'', JStr ''front_view''),
                (''camera_name'', JStr ''Front View''),
                (''timestamp'', JStr ''2026-11-04T07:21:00.033000''),
                (''image'', JStr ''/9j/4AAQ''),
                (''is_grayscale'', JBool False),
                (''source_connected'', JBool False)]) \<and>
   \<not> spec_broadcast_shape
       (JObj [(''camera_id'', JStr ''front_view''),
              (''camera_name'', JStr ''Front View''),
              (''timestamp'', JStr ''2026-11-04T07:21:00.033000''),
              (''image'', JStr ''/9j/4AAQ''),
              (''is_grayscale'', JBool False),
              (''source_connected'', JBool False)])"
  by (simp add: spec_broadcast_shape_def broadcast_camera_feed_def bytes_decode_def byte_in_def
      get_frame_def frames_set_frame connection_status_set_frame
      front_view_def mk_config_def init_buffer_def CAMERA_CONFIGS_def Let_def)

end
